theory Spec2Isabelle
  imports Main "HOL-Library.Sublist"
begin

section \<open>Python values\<close>

text \<open>
  The client handles three kinds of Python values: what \<open>json.load\<close> and
  \<open>response.json()\<close> return, the constructor arguments, and the values of a query
  parameter dictionary. All of them are \<open>None\<close>, booleans, integers, strings, lists and
  dictionaries with string keys. JSON numbers with a fraction (Python floats) are left out.
  A dictionary is an association list in insertion order, looked up from the front.
\<close>

datatype pyval =
    PNone
  | PBool bool
  | PInt int
  | PStr string
  | PList "pyval list"
  | PDict "(string \<times> pyval) list"

text \<open>The exceptions that the source, the standard library and \<open>requests\<close> raise here.\<close>

datatype error =
    SystemExit int
  | AssertionError string
  | HTTPError int string
  | ConnectionError
  | KeyError string
  | TypeError
  | JSONDecodeError
  | UnicodeEncodeError
  | OSError

text \<open>Truth value testing, as \<open>if x\<close> and \<open>x and y\<close> do it.\<close>

fun truthy :: "pyval \<Rightarrow> bool" where
  "truthy PNone = False"
| "truthy (PBool b) = b"
| "truthy (PInt i) = (i \<noteq> 0)"
| "truthy (PStr s) = (s \<noteq> [])"
| "truthy (PList xs) = (xs \<noteq> [])"
| "truthy (PDict kvs) = (kvs \<noteq> [])"

text \<open>
  \<open>v[key]\<close> with a string key: a dictionary raises \<open>KeyError\<close> for a missing key, every
  other value raises \<open>TypeError\<close> (a list or string wants integer indices, the rest is not
  subscriptable).
\<close>

fun py_getitem :: "pyval \<Rightarrow> string \<Rightarrow> error + pyval" where
  "py_getitem (PDict kvs) key =
     (case map_of kvs key of None \<Rightarrow> Inl (KeyError key) | Some v \<Rightarrow> Inr v)"
| "py_getitem _ key = Inl TypeError"

text \<open>\<open>sep.join(xs)\<close>.\<close>

fun join :: "string \<Rightarrow> string list \<Rightarrow> string" where
  "join sep [] = []"
| "join sep [x] = x"
| "join sep (x # y # ys) = x @ sep @ join sep (y # ys)"

text \<open>Decimal digits of a natural number, and \<open>str\<close> of an integer.\<close>

function dec_nat :: "nat \<Rightarrow> string" where
  "dec_nat n =
     (if n < 10 then [''0123456789'' ! n]
      else dec_nat (n div 10) @ [''0123456789'' ! (n mod 10)])"
  by pat_completeness auto
termination
  by (relation "measure id") auto

declare dec_nat.simps [simp del]

definition str_int :: "int \<Rightarrow> string" where
  "str_int i = (if i < 0 then CHR ''-'' # dec_nat (nat (- i)) else dec_nat (nat i))"

text \<open>
  \<open>repr\<close> of a string: single quotes unless the string has a single quote and no double
  quote; the quote and the backslash are escaped, tab, newline and carriage return are
  written \<open>\t\<close>, \<open>\n\<close>, \<open>\r\<close>, other control characters as \<open>\xhh\<close>. A character above
  127 is a byte of a UTF-8 sequence and is copied (exact for printable text).
\<close>

definition hex2 :: "nat \<Rightarrow> string" where
  "hex2 n = [''0123456789abcdef'' ! (n div 16), ''0123456789abcdef'' ! (n mod 16)]"

definition repr_char :: "char \<Rightarrow> char \<Rightarrow> string" where
  "repr_char quote ch =
     (let n = (of_char ch :: nat) in
      if ch = quote \<or> n = 92 then [char_of (92::nat), ch]
      else if n = 9 then [char_of (92::nat), CHR ''t'']
      else if n = 10 then [char_of (92::nat), CHR ''n'']
      else if n = 13 then [char_of (92::nat), CHR ''r'']
      else if n < 32 \<or> n = 127 then [char_of (92::nat), CHR ''x''] @ hex2 n
      else [ch])"

definition repr_str :: "string \<Rightarrow> string" where
  "repr_str s =
     (let quote = (if char_of (39::nat) \<in> set s \<and> char_of (34::nat) \<notin> set s
                   then char_of (34::nat) else char_of (39::nat))
      in [quote] @ concat (map (repr_char quote) s) @ [quote])"

fun py_repr :: "pyval \<Rightarrow> string" where
  "py_repr PNone = ''None''"
| "py_repr (PBool b) = (if b then ''True'' else ''False'')"
| "py_repr (PInt i) = str_int i"
| "py_repr (PStr s) = repr_str s"
| "py_repr (PList xs) = ''['' @ join '', '' (map py_repr xs) @ '']''"
| "py_repr (PDict kvs) =
     ''{'' @ join '', '' (map (\<lambda>(k, v). repr_str k @ '': '' @ py_repr v) kvs) @ ''}''"

text \<open>\<open>str(v)\<close>, which is also what \<open>'{}'.format(v)\<close> inserts.\<close>

fun py_str :: "pyval \<Rightarrow> string" where
  "py_str (PStr s) = s"
| "py_str v = py_repr v"

text \<open>
  \<open>documents.extend(chunk)\<close> appends what iterating over \<open>chunk\<close> yields: the elements of
  a list, the characters of a string, the keys of a dictionary; anything else is not
  iterable.
\<close>

fun list_extend :: "pyval list \<Rightarrow> pyval \<Rightarrow> error + pyval list" where
  "list_extend documents (PList xs) = Inr (documents @ xs)"
| "list_extend documents (PStr s) = Inr (documents @ map (\<lambda>ch. PStr [ch]) s)"
| "list_extend documents (PDict kvs) = Inr (documents @ map (\<lambda>(k, v). PStr k) kvs)"
| "list_extend documents _ = Inl TypeError"

section \<open>Base64 and ASCII\<close>

text \<open>
  \<open>s.encode('ascii')\<close> raises \<open>UnicodeEncodeError\<close> when a character is above 127;
  \<open>base64.b64encode\<close> follows RFC 4648 with padding, and its output is ASCII, so the
  final \<open>decode('ascii')\<close> always succeeds.
\<close>

definition encode_ascii :: "string \<Rightarrow> error + nat list" where
  "encode_ascii s =
     (if list_all (\<lambda>ch. (of_char ch :: nat) < 128) s then Inr (map of_char s)
      else Inl UnicodeEncodeError)"

definition b64_alphabet :: string where
  "b64_alphabet = ''ABCDEFGHIJKLMNOPQRSTUVWXYZabcdefghijklmnopqrstuvwxyz0123456789+/''"

definition b64_char :: "nat \<Rightarrow> char" where
  "b64_char n = b64_alphabet ! n"

fun b64encode :: "nat list \<Rightarrow> string" where
  "b64encode [] = []"
| "b64encode [a] =
     [b64_char (a div 4), b64_char ((a mod 4) * 16), CHR ''='', CHR ''='']"
| "b64encode [a, b] =
     [b64_char (a div 4), b64_char ((a mod 4) * 16 + b div 16),
      b64_char ((b mod 16) * 4), CHR ''='']"
| "b64encode (a # b # c # rest) =
     [b64_char (a div 4), b64_char ((a mod 4) * 16 + b div 16),
      b64_char ((b mod 16) * 4 + c div 64), b64_char (c mod 64)] @ b64encode rest"

section \<open>The network and the file system\<close>

text \<open>
  What \<open>requests\<close> sends and receives. A response has its status code, its body as text
  and the result of \<open>response.json()\<close> (\<open>None\<close> when the body is not JSON and the call
  raises). \<open>response.ok\<close> is true unless \<open>raise_for_status\<close> would raise, which it does for
  a status from 400 to 599.
\<close>

datatype http_method = GET | POST

record request =
  meth :: http_method
  url :: string
  headers :: "(string \<times> string) list"
  form :: "(string \<times> string) list"
  verify :: bool

record response =
  status_code :: int
  response_text :: string
  json :: "pyval option"

definition ok :: "response \<Rightarrow> bool" where
  "ok r = (\<not> (400 \<le> status_code r \<and> status_code r < 600))"

text \<open>A request is answered by a response, or fails in transport (no connection, TLS, DNS).\<close>

datatype outcome = Resp response | NetFail

text \<open>
  The remote side is a state machine: from its state and a request it gives an outcome and
  its next state. The network state also records every request sent, in order.
\<close>

type_synonym 'w server = "'w \<Rightarrow> request \<Rightarrow> outcome \<times> 'w"

record 'w net =
  srv_state :: 'w
  sent :: "request list"

definition send :: "'w server \<Rightarrow> request \<Rightarrow> 'w net \<Rightarrow> (error + response) \<times> 'w net" where
  "send respond req n =
     (let (out, w') = respond (srv_state n) req;
          n' = \<lparr>srv_state = w', sent = sent n @ [req]\<rparr>
      in case out of
           NetFail \<Rightarrow> (Inl ConnectionError, n')
         | Resp r \<Rightarrow> (Inr r, n'))"

definition requests_get ::
  "'w server \<Rightarrow> string \<Rightarrow> (string \<times> string) list \<Rightarrow> 'w net \<Rightarrow> (error + response) \<times> 'w net" where
  "requests_get respond u hs n =
     send respond \<lparr>meth = GET, url = u, headers = hs, form = [], verify = False\<rparr> n"

definition requests_post ::
  "'w server \<Rightarrow> string \<Rightarrow> (string \<times> string) list \<Rightarrow> (string \<times> string) list \<Rightarrow> 'w net
     \<Rightarrow> (error + response) \<times> 'w net" where
  "requests_post respond u d hs n =
     send respond \<lparr>meth = POST, url = u, headers = hs, form = d, verify = False\<rparr> n"

text \<open>
  A path of the file system is missing, or exists and cannot be opened for reading (a
  directory, no permission), or is a file whose content \<open>json.load\<close> parses (\<open>Some\<close>) or
  rejects (\<open>None\<close>). The environment holds the variable \<open>CASE_CREDENTIALS_PATH\<close>.
\<close>

datatype path_state = Missing | Unreadable | Content "pyval option"

record environment =
  case_credentials_path :: "string option"
  files :: "string \<Rightarrow> path_state"

section \<open>Module constants\<close>

definition BASE_URL :: string where
  "BASE_URL = ''https://caseregistry.imsglobal.org/ims/case/v1p0''"

definition CREDENTIALS_PATH :: "environment \<Rightarrow> string" where
  "CREDENTIALS_PATH env =
     (case case_credentials_path env of
        None \<Rightarrow> ''credentials/casenetwork.json''
      | Some p \<Rightarrow> p)"

definition CLIENTOKEN_ENDPOINT :: string where
  "CLIENTOKEN_ENDPOINT = ''https://oauth2-case.imsglobal.org/oauth2server/clienttoken''"

definition BEARERCHECK_ENDPOINT :: string where
  "BEARERCHECK_ENDPOINT = ''https://oauth2-case.imsglobal.org/oauth2server/bearercheck''"

section \<open>CASEClient\<close>

text \<open>
  The object has three attributes. What the methods print is not part of the model: the
  printed lines do not influence any result, request or stored value.
\<close>

record client =
  client_id :: pyval
  client_secret :: pyval
  access_token :: pyval

text \<open>The class attributes: all three fields start as \<open>None\<close>.\<close>

definition new_client :: client where
  "new_client = \<lparr>client_id = PNone, client_secret = PNone, access_token = PNone\<rparr>"

text \<open>
  \<open>set_credentials\<close>. In the file branch \<open>self.client_id\<close> is assigned before
  \<open>credentials['client_secret']\<close> is looked up, so a failure of the second lookup leaves
  the first assignment in place.
\<close>

definition set_credentials ::
  "environment \<Rightarrow> pyval \<Rightarrow> pyval \<Rightarrow> client \<Rightarrow> (error + unit) \<times> client" where
  "set_credentials env cid csecret self =
     (if truthy cid \<and> truthy csecret then
        (Inr (), self\<lparr>client_id := cid, client_secret := csecret\<rparr>)
      else
        (case files env (CREDENTIALS_PATH env) of
           Missing \<Rightarrow> (Inl (SystemExit (- 2)), self)
         | Unreadable \<Rightarrow> (Inl OSError, self)
         | Content None \<Rightarrow> (Inl JSONDecodeError, self)
         | Content (Some credentials) \<Rightarrow>
             (case py_getitem credentials ''client_id'' of
                Inl e \<Rightarrow> (Inl e, self)
              | Inr i \<Rightarrow>
                  (case py_getitem credentials ''client_secret'' of
                     Inl e \<Rightarrow> (Inl e, self\<lparr>client_id := i\<rparr>)
                   | Inr s \<Rightarrow> (Inr (), self\<lparr>client_id := i, client_secret := s\<rparr>)))))"

text \<open>\<open>a + b\<close> on strings; any other operand type raises \<open>TypeError\<close>.\<close>

fun str_add :: "pyval \<Rightarrow> pyval \<Rightarrow> error + pyval" where
  "str_add (PStr a) (PStr b) = Inr (PStr (a @ b))"
| "str_add _ _ = Inl TypeError"

definition scopes_requested :: "string list" where
  "scopes_requested =
     [''http://purl.imsglobal.org/casenetwork/case/v1p0/scope/core.readonly'',
      ''http://purl.imsglobal.org/casenetwork/case/v1p0/scope/all.readonly'']"

text \<open>
  \<open>obtain_access_token\<close>. The header string is built and encoded before anything is
  sent; the assertion message carries the response body; on success the value under
  \<open>access_token\<close> replaces \<open>self.access_token\<close>.
\<close>

definition obtain_access_token ::
  "'w server \<Rightarrow> client \<Rightarrow> 'w net \<Rightarrow> (error + unit) \<times> client \<times> 'w net" where
  "obtain_access_token respond self n =
     (let scope = join '' '' scopes_requested;
          data = [(''grant_type'', ''client_credentials''), (''scope'', scope)]
      in
     (case str_add (client_id self) (PStr '':'') of
        Inl e \<Rightarrow> (Inl e, self, n)
      | Inr left \<Rightarrow>
     (case str_add left (client_secret self) of
        Inl e \<Rightarrow> (Inl e, self, n)
      | Inr header_str \<Rightarrow>
     (case encode_ascii (py_str header_str) of
        Inl e \<Rightarrow> (Inl e, self, n)
      | Inr header_bytes \<Rightarrow>
     (let basic_auth_header = b64encode header_bytes;
          headers = [(''Authorization'', ''Basic '' @ basic_auth_header)]
      in
     (case requests_post respond CLIENTOKEN_ENDPOINT data headers n of
        (Inl e, n') \<Rightarrow> (Inl e, self, n')
      | (Inr response, n') \<Rightarrow>
          if \<not> ok response then
            (Inl (AssertionError (''Failed to get access_token.'' @ response_text response)),
             self, n')
          else
            (case json response of
               None \<Rightarrow> (Inl JSONDecodeError, self, n')
             | Some j \<Rightarrow>
                 (case py_getitem j ''access_token'' of
                    Inl e \<Rightarrow> (Inl e, self, n')
                  | Inr token \<Rightarrow> (Inr (), self\<lparr>access_token := token\<rparr>, n')))))))))"

definition bearercheck_url :: "client \<Rightarrow> string" where
  "bearercheck_url self = BEARERCHECK_ENDPOINT @ ''?token='' @ py_str (access_token self)"

definition is_authenticated :: "'w server \<Rightarrow> client \<Rightarrow> 'w net \<Rightarrow> (error + bool) \<times> 'w net" where
  "is_authenticated respond self n =
     (case requests_get respond (bearercheck_url self) [] n of
        (Inl e, n') \<Rightarrow> (Inl e, n')
      | (Inr response, n') \<Rightarrow> (if ok response then (Inr True, n') else (Inr False, n')))"

text \<open>
  \<open>get\<close>. The URL and the query string; the header of the current token; the first
  request; on 401 or 403 the liveness check and, for a dead token, the refresh and the
  one retry; then the result from whichever response is current.
\<close>

definition querystring :: "(string \<times> pyval) list \<Rightarrow> string" where
  "querystring params =
     ''?'' @ join ''&'' (map (\<lambda>(key, val). key @ ''='' @ py_str val) params)"

definition get_url :: "string \<Rightarrow> (string \<times> pyval) list option \<Rightarrow> string" where
  "get_url path params =
     (case params of
        None \<Rightarrow> BASE_URL @ path
      | Some ps \<Rightarrow> if ps \<noteq> [] then BASE_URL @ path @ querystring ps else BASE_URL @ path)"

definition bearer_headers :: "client \<Rightarrow> (string \<times> string) list" where
  "bearer_headers self = [(''Authorization'', ''Bearer '' @ py_str (access_token self))]"

definition get ::
  "'w server \<Rightarrow> string \<Rightarrow> (string \<times> pyval) list option \<Rightarrow> client \<Rightarrow> 'w net
     \<Rightarrow> (error + pyval) \<times> client \<times> 'w net" where
  "get respond path params self n =
     (let u = get_url path params in
      case requests_get respond u (bearer_headers self) n of
        (Inl e, n1) \<Rightarrow> (Inl e, self, n1)
      | (Inr response, n1) \<Rightarrow>
          (case
             (if status_code response = 401 \<or> status_code response = 403 then
                (case is_authenticated respond self n1 of
                   (Inl e, n2) \<Rightarrow> (Inl e, self, n2)
                 | (Inr True, n2) \<Rightarrow> (Inr response, self, n2)
                 | (Inr False, n2) \<Rightarrow>
                     (case obtain_access_token respond self n2 of
                        (Inl e, self3, n3) \<Rightarrow> (Inl e, self3, n3)
                      | (Inr _, self3, n3) \<Rightarrow>
                          (case requests_get respond u (bearer_headers self3) n3 of
                             (Inl e, n4) \<Rightarrow> (Inl e, self3, n4)
                           | (Inr response', n4) \<Rightarrow> (Inr response', self3, n4))))
              else (Inr response, self, n1))
           of
             (Inl e, self', n') \<Rightarrow> (Inl e, self', n')
           | (Inr response, self', n') \<Rightarrow>
               if ok response then
                 (case json response of
                    None \<Rightarrow> (Inl JSONDecodeError, self', n')
                  | Some j \<Rightarrow> (Inr j, self', n'))
               else
                 (Inl (HTTPError (status_code response) (response_text response)), self', n')))"

text \<open>\<open>get_documents\<close>: the constants, the parameters of one request, the loop.\<close>

definition chunk_size :: nat where
  "chunk_size = 50"

definition max_requests :: nat where
  "max_requests = 10"

definition CFDocuments_endpoint :: string where
  "CFDocuments_endpoint = ''/CFDocuments''"

definition page_params :: "nat \<Rightarrow> (string \<times> pyval) list" where
  "page_params counter =
     [(''offset'', PInt (int (chunk_size * counter))),
      (''limit'', PInt (int chunk_size)),
      (''sort'', PStr ''identifier''),
      (''orderBy'', PStr ''asc'')]"

function get_documents_loop ::
  "'w server \<Rightarrow> pyval list \<Rightarrow> bool \<Rightarrow> nat \<Rightarrow> client \<Rightarrow> 'w net
     \<Rightarrow> (error + pyval list) \<times> client \<times> 'w net" where
  "get_documents_loop respond documents done counter self n =
     (if done = False \<and> counter < max_requests then
        (case get respond CFDocuments_endpoint (Some (page_params counter)) self n of
           (Inl e, self', n') \<Rightarrow> (Inl e, self', n')
         | (Inr data, self', n') \<Rightarrow>
             (case py_getitem data ''CFDocuments'' of
                Inl e \<Rightarrow> (Inl e, self', n')
              | Inr documents_chunk \<Rightarrow>
                  if truthy documents_chunk then
                    (case list_extend documents documents_chunk of
                       Inl e \<Rightarrow> (Inl e, self', n')
                     | Inr documents' \<Rightarrow>
                         get_documents_loop respond documents' done (counter + 1) self' n')
                  else get_documents_loop respond documents True counter self' n'))
      else (Inr documents, self, n))"
  by pat_completeness auto
termination
  by (relation "measure (\<lambda>(respond, documents, done, counter, self, n).
                  if done then 0 else 1 + (max_requests - counter))")
     auto

declare get_documents_loop.simps [simp del]

definition get_documents ::
  "'w server \<Rightarrow> client \<Rightarrow> 'w net \<Rightarrow> (error + pyval list) \<times> client \<times> 'w net" where
  "get_documents respond self n = get_documents_loop respond [] False 0 self n"

text \<open>
  The constructor: credentials, then the token, then the liveness check, whose answer
  only decides whether a line is printed.
\<close>

definition init ::
  "environment \<Rightarrow> 'w server \<Rightarrow> pyval \<Rightarrow> pyval \<Rightarrow> 'w net \<Rightarrow> (error + unit) \<times> client \<times> 'w net" where
  "init env respond cid csecret n =
     (case set_credentials env cid csecret new_client of
        (Inl e, self) \<Rightarrow> (Inl e, self, n)
      | (Inr _, self) \<Rightarrow>
          (case obtain_access_token respond self n of
             (Inl e, self', n') \<Rightarrow> (Inl e, self', n')
           | (Inr _, self', n') \<Rightarrow>
               (case is_authenticated respond self' n' of
                  (Inl e, n'') \<Rightarrow> (Inl e, self', n'')
                | (Inr _, n'') \<Rightarrow> (Inr (), self', n''))))"

section \<open>Requests as the client shapes them, and servers to run it against\<close>

text \<open>The requests the client sends, named for the statements below.\<close>

definition resource_request ::
  "string \<Rightarrow> (string \<times> pyval) list option \<Rightarrow> client \<Rightarrow> request" where
  "resource_request path params self =
     \<lparr>meth = GET, url = get_url path params, headers = bearer_headers self,
      form = [], verify = False\<rparr>"

definition liveness_request :: "client \<Rightarrow> request" where
  "liveness_request self =
     \<lparr>meth = GET, url = bearercheck_url self, headers = [], form = [], verify = False\<rparr>"

definition token_request :: "nat list \<Rightarrow> request" where
  "token_request header_bytes =
     \<lparr>meth = POST, url = CLIENTOKEN_ENDPOINT,
      headers = [(''Authorization'', ''Basic '' @ b64encode header_bytes)],
      form = [(''grant_type'', ''client_credentials''),
              (''scope'', join '' '' scopes_requested)],
      verify = False\<rparr>"

definition page_request :: "client \<Rightarrow> nat \<Rightarrow> request" where
  "page_request self k = resource_request CFDocuments_endpoint (Some (page_params k)) self"

text \<open>A request to the resource API: a GET below \<open>BASE_URL\<close>.\<close>

definition is_resource_get :: "request \<Rightarrow> bool" where
  "is_resource_get req = (meth req = GET \<and> prefix BASE_URL (url req))"

text \<open>A successful response whose JSON envelope holds the list \<open>docs\<close> under \<open>CFDocuments\<close>.\<close>

definition serves_page :: "response \<Rightarrow> pyval list \<Rightarrow> bool" where
  "serves_page r docs =
     (ok r \<and> (case json r of
                 None \<Rightarrow> False
               | Some j \<Rightarrow> py_getitem j ''CFDocuments'' = Inr (PList docs)))"

definition documents_response :: "pyval list \<Rightarrow> response" where
  "documents_response docs =
     \<lparr>status_code = 200, response_text = [], json = Some (PDict [(''CFDocuments'', PList docs)])\<rparr>"

definition token_response :: "pyval \<Rightarrow> response" where
  "token_response token =
     \<lparr>status_code = 200, response_text = [], json = Some (PDict [(''access_token'', token)])\<rparr>"

definition status_response :: "int \<Rightarrow> string \<Rightarrow> response" where
  "status_response code body = \<lparr>status_code = code, response_text = body, json = None\<rparr>"

text \<open>A server that answers from a script, one outcome per request, then stops answering.\<close>

fun scripted :: "outcome list server" where
  "scripted [] req = (NetFail, [])"
| "scripted (out # rest) req = (out, rest)"

text \<open>A server with one answer to everything.\<close>

definition always :: "outcome \<Rightarrow> unit server" where
  "always out w req = (out, w)"


text \<open>
  A server over a fixed list of documents: the request for page \<open>k\<close> gets the \<open>k\<close>-th
  slice of \<open>chunk_size\<close> documents, whatever the token; anything else is not found.
\<close>

definition dataset_server :: "pyval list \<Rightarrow> unit server" where
  "dataset_server ds w req =
     (case find (\<lambda>k. url req = get_url CFDocuments_endpoint (Some (page_params k)))
                [0..<max_requests] of
        Some k \<Rightarrow> (Resp (documents_response (take chunk_size (drop (chunk_size * k) ds))), w)
      | None \<Rightarrow> (Resp (status_response 404 ''not found''), w))"

definition example_client :: client where
  "example_client =
     \<lparr>client_id = PStr ''id'', client_secret = PStr ''secret'', access_token = PStr ''stale''\<rparr>"

text \<open>Two environments: one without any file, one with a credentials file at the default path.\<close>

definition no_files :: environment where
  "no_files = \<lparr>case_credentials_path = None, files = (\<lambda>p. Missing)\<rparr>"

definition credentials_file :: "pyval \<Rightarrow> environment" where
  "credentials_file content =
     \<lparr>case_credentials_path = None,
      files = (\<lambda>p. if p = ''credentials/casenetwork.json'' then Content (Some content)
                   else Missing)\<rparr>"

definition idle :: "unit net" where
  "idle = \<lparr>srv_state = (), sent = []\<rparr>"

text \<open>
  The two requests as the specification words them: the resource GET with its optional
  query string and bearer header, and the token POST with the fixed scope list and the
  Basic header over \<open>client_id:client_secret\<close>.
\<close>

definition spec_get_request ::
  "string \<Rightarrow> (string \<times> pyval) list option \<Rightarrow> client \<Rightarrow> request" where
  "spec_get_request path params self =
     \<lparr>meth = GET,
      url = (if params = None \<or> params = Some [] then BASE_URL @ path
             else BASE_URL @ path @ ''?'' @
                  join ''&'' (map (\<lambda>(key, val). key @ ''='' @ py_str val) (the params))),
      headers = [(''Authorization'', ''Bearer '' @ py_str (access_token self))],
      form = [], verify = False\<rparr>"

definition spec_token_request :: "string \<Rightarrow> string \<Rightarrow> request" where
  "spec_token_request i s =
     \<lparr>meth = POST,
      url = ''https://oauth2-case.imsglobal.org/oauth2server/clienttoken'',
      headers = [(''Authorization'', ''Basic '' @ b64encode (map of_char (i @ '':'' @ s)))],
      form = [(''grant_type'', ''client_credentials''),
              (''scope'',
               ''http://purl.imsglobal.org/casenetwork/case/v1p0/scope/core.readonly http://purl.imsglobal.org/casenetwork/case/v1p0/scope/all.readonly'')],
      verify = False\<rparr>"

section \<open>One request at a time\<close>

lemma send_eq:
  "respond (srv_state n) req = (out, w') \<Longrightarrow>
   send respond req n =
     ((case out of NetFail \<Rightarrow> Inl ConnectionError | Resp r \<Rightarrow> Inr r),
      \<lparr>srv_state = w', sent = sent n @ [req]\<rparr>)"
  by (simp add: send_def split: outcome.splits)

lemma send_sent: "send respond req n = (res, n') \<Longrightarrow> sent n' = sent n @ [req]"
  by (auto simp: send_def Let_def split: prod.splits outcome.splits)

lemma requests_get_resource:
  "requests_get respond (get_url path params) (bearer_headers self) n =
   send respond (resource_request path params self) n"
  by (simp add: requests_get_def resource_request_def)

lemma is_authenticated_send:
  "is_authenticated respond self n =
     (case send respond (liveness_request self) n of
        (Inl e, n') \<Rightarrow> (Inl e, n')
      | (Inr response, n') \<Rightarrow> (Inr (ok response), n'))"
  by (simp add: is_authenticated_def requests_get_def liveness_request_def split: prod.splits sum.splits)

lemma is_authenticated_sent:
  "is_authenticated respond self n = (res, n') \<Longrightarrow> sent n' = sent n @ [liveness_request self]"
  by (auto simp: is_authenticated_send split: prod.splits sum.splits dest: send_sent)

lemma obtain_access_token_sent:
  "obtain_access_token respond self n = (res, self', n') \<Longrightarrow>
   sent n' = sent n \<or> (\<exists>bytes. sent n' = sent n @ [token_request bytes])"
  by (auto simp: obtain_access_token_def Let_def requests_post_def token_request_def
        split: prod.splits sum.splits if_splits option.splits dest: send_sent)

lemma liveness_not_resource: "\<not> is_resource_get (liveness_request self)"
  by (simp add: is_resource_get_def liveness_request_def bearercheck_url_def BASE_URL_def BEARERCHECK_ENDPOINT_def)

lemma token_not_resource: "\<not> is_resource_get (token_request bytes)"
  by (simp add: is_resource_get_def token_request_def)

lemma resource_is_resource: "is_resource_get (resource_request path params self)"
  by (simp add: is_resource_get_def resource_request_def get_url_def split: option.splits)

lemma ok_not_unauthorized: "ok r \<Longrightarrow> status_code r \<noteq> 401 \<and> status_code r \<noteq> 403"
  by (auto simp: ok_def)

lemma get_first_final:
  assumes "respond (srv_state n) (resource_request path params self) = (Resp r, w')"
    and "status_code r \<noteq> 401" and "status_code r \<noteq> 403"
  shows "get respond path params self n =
           ((if ok r then (case json r of None \<Rightarrow> Inl JSONDecodeError | Some j \<Rightarrow> Inr j)
             else Inl (HTTPError (status_code r) (response_text r))),
            self, \<lparr>srv_state = w', sent = sent n @ [resource_request path params self]\<rparr>)"
  using assms
  by (simp add: get_def requests_get_resource send_eq split: option.splits)

lemma get_sent:
  assumes "get respond path params self n = (res, self', n')"
  shows "\<exists>new. sent n' = sent n @ resource_request path params self # new \<and>
               length new \<le> 3 \<and> length (filter is_resource_get new) \<le> 1"
  using assms
  by (auto simp: get_def requests_get_resource liveness_not_resource token_not_resource
           split: prod.splits sum.splits if_splits bool.splits option.splits
           dest!: send_sent is_authenticated_sent obtain_access_token_sent)

lemma loop_stop:
  "done \<or> max_requests \<le> counter \<Longrightarrow>
   get_documents_loop respond documents done counter self n = (Inr documents, self, n)"
  by (subst get_documents_loop.simps) auto

lemma loop_step_page:
  assumes "respond (srv_state n) (page_request self counter) = (Resp r, w')"
    and "serves_page r docs" and "counter < max_requests"
  shows "get_documents_loop respond documents False counter self n =
           (if docs \<noteq> [] then
              get_documents_loop respond (documents @ docs) False (Suc counter) self
                \<lparr>srv_state = w', sent = sent n @ [page_request self counter]\<rparr>
            else (Inr documents, self,
                  \<lparr>srv_state = w', sent = sent n @ [page_request self counter]\<rparr>))"
proof -
  from assms(2) obtain j where j: "ok r" "json r = Some j"
    "py_getitem j ''CFDocuments'' = Inr (PList docs)"
    by (auto simp: serves_page_def split: option.splits)
  have g: "get respond CFDocuments_endpoint (Some (page_params counter)) self n =
        (Inr j, self, \<lparr>srv_state = w', sent = sent n @ [page_request self counter]\<rparr>)"
    using get_first_final[of respond n CFDocuments_endpoint "Some (page_params counter)" self r w']
      assms(1) j ok_not_unauthorized[OF j(1)]
    by (simp add: page_request_def)
  show ?thesis
    using assms(3) g j(3)
    by (subst get_documents_loop.simps) (simp add: loop_stop)
qed




lemma encode_ascii_ok:
  "list_all (\<lambda>ch. (of_char ch :: nat) < 128) s \<Longrightarrow> encode_ascii s = Inr (map of_char s)"
  by (simp add: encode_ascii_def)

lemma obtain_access_token_sends:
  assumes "client_id self = PStr i" and "client_secret self = PStr s"
    and "list_all (\<lambda>ch. (of_char ch :: nat) < 128) (i @ '':'' @ s)"
    and "respond (srv_state n) (token_request (map of_char (i @ '':'' @ s))) = (out, w')"
  shows "obtain_access_token respond self n =
           (case
             (case out of
              NetFail \<Rightarrow> (Inl ConnectionError, self)
            | Resp r \<Rightarrow>
                if \<not> ok r then
                  (Inl (AssertionError (''Failed to get access_token.'' @ response_text r)), self)
                else
                  (case json r of
                     None \<Rightarrow> (Inl JSONDecodeError, self)
                   | Some j \<Rightarrow>
                       (case py_getitem j ''access_token'' of
                          Inl e \<Rightarrow> (Inl e, self)
                        | Inr token \<Rightarrow> (Inr (), self\<lparr>access_token := token\<rparr>))))
            of (res, self') \<Rightarrow>
              (res, self',
               \<lparr>srv_state = w', sent = sent n @ [token_request (map of_char (i @ '':'' @ s))]\<rparr>))"
  using assms
  by (simp add: obtain_access_token_def Let_def requests_post_def token_request_def encode_ascii_ok send_eq
           split: outcome.splits option.splits sum.splits)

lemma get_retry:
  assumes first: "respond (srv_state n) (resource_request path params self) = (Resp r1, w1)"
      "status_code r1 = 401 \<or> status_code r1 = 403"
    and dead: "respond w1 (liveness_request self) = (Resp r2, w2)" "\<not> ok r2"
    and creds: "client_id self = PStr i" "client_secret self = PStr s"
      "list_all (\<lambda>ch. (of_char ch :: nat) < 128) (i @ '':'' @ s)"
    and fresh: "respond w2 (token_request (map of_char (i @ '':'' @ s))) = (Resp r3, w3)"
      "ok r3" "json r3 = Some j3" "py_getitem j3 ''access_token'' = Inr token"
    and again: "respond w3 (resource_request path params (self\<lparr>access_token := token\<rparr>)) = (Resp r4, w4)"
  shows "get respond path params self n =
           ((if ok r4 then (case json r4 of None \<Rightarrow> Inl JSONDecodeError | Some j \<Rightarrow> Inr j)
             else Inl (HTTPError (status_code r4) (response_text r4))),
            self\<lparr>access_token := token\<rparr>,
            \<lparr>srv_state = w4,
             sent = sent n @ [resource_request path params self, liveness_request self,
                              token_request (map of_char (i @ '':'' @ s)),
                              resource_request path params (self\<lparr>access_token := token\<rparr>)]\<rparr>)"
proof -
  let ?n1 = "\<lparr>srv_state = w1, sent = sent n @ [resource_request path params self]\<rparr>"
  let ?n2 = "\<lparr>srv_state = w2, sent = sent n @ [resource_request path params self, liveness_request self]\<rparr>"
  let ?n3 = "\<lparr>srv_state = w3, sent = sent n @ [resource_request path params self, liveness_request self,
                              token_request (map of_char (i @ '':'' @ s))]\<rparr>"
  have s1: "send respond (resource_request path params self) n = (Inr r1, ?n1)"
    using first(1) by (simp add: send_eq)
  have s2: "is_authenticated respond self ?n1 = (Inr False, ?n2)"
    using dead by (simp add: is_authenticated_send send_eq)
  have s3: "obtain_access_token respond self ?n2 = (Inr (), self\<lparr>access_token := token\<rparr>, ?n3)"
    using obtain_access_token_sends[of self i s respond ?n2 "Resp r3" w3] creds fresh by simp
  have s4: "send respond (resource_request path params (self\<lparr>access_token := token\<rparr>)) ?n3 =
              (Inr r4, \<lparr>srv_state = w4, sent = sent ?n3 @ [resource_request path params (self\<lparr>access_token := token\<rparr>)]\<rparr>)"
    using again by (simp add: send_eq)
  show ?thesis
    using first(2) s1 s2 s3 s4
    by (auto simp: get_def requests_get_resource split: option.splits)
qed

lemma retry_trace_count:
  "length (filter is_resource_get
     [resource_request path params self, liveness_request self, token_request bytes,
      resource_request path params self']) = 2"
  by (simp add: resource_is_resource liveness_not_resource token_not_resource)

lemma resource_request_spec: "resource_request path params self = spec_get_request path params self"
  by (cases params)
     (simp_all add: resource_request_def spec_get_request_def get_url_def querystring_def
        bearer_headers_def)

lemma token_request_spec: "token_request (map of_char (i @ '':'' @ s)) = spec_token_request i s"
  by (simp add: token_request_def spec_token_request_def scopes_requested_def
        CLIENTOKEN_ENDPOINT_def)

lemma py_getitem_error: "py_getitem v key = Inl e \<Longrightarrow> e = KeyError key \<or> e = TypeError"
  by (cases v) (auto split: option.splits)

section \<open>Credentials\<close>

text \<open>
  Claim C8. When no usable explicit pair is given (the test \<open>client_id and client_secret\<close>
  fails) and nothing exists at the credentials path, \<open>set_credentials\<close> leaves by
  \<open>sys.exit(-2)\<close>; the constructor stops there, so the client stays as created and the
  network is untouched: no token request is sent.
\<close>

theorem missing_credentials_exit:
  assumes "\<not> (truthy cid \<and> truthy csecret)"
    and "files env (CREDENTIALS_PATH env) = Missing"
  shows "set_credentials env cid csecret self = (Inl (SystemExit (- 2)), self) \<and>
         init env respond cid csecret n = (Inl (SystemExit (- 2)), new_client, n)"
  using assms by (auto simp: set_credentials_def init_def)

text \<open>The same at a concrete input: no arguments, no file, a server that is never asked.\<close>

theorem missing_credentials_exit_witness:
  "set_credentials no_files PNone PNone new_client = (Inl (SystemExit (- 2)), new_client) \<and>
   init no_files (always NetFail) PNone PNone idle = (Inl (SystemExit (- 2)), new_client, idle)"
  using missing_credentials_exit [of PNone PNone no_files new_client "always NetFail" idle]
  by (simp add: no_files_def)

text \<open>
  Claim C10. When one of the two explicit arguments is missing or an empty string,
  \<open>set_credentials\<close> behaves exactly as if neither had been given: it exits with -2 when
  the credentials file is missing, and takes both values from the file when the file has
  them.
\<close>

theorem partial_credentials_fall_back:
  assumes "cid = PNone \<or> cid = PStr [] \<or> csecret = PNone \<or> csecret = PStr []"
  shows "set_credentials env cid csecret self = set_credentials env PNone PNone self \<and>
         (files env (CREDENTIALS_PATH env) = Missing \<longrightarrow>
            set_credentials env cid csecret self = (Inl (SystemExit (- 2)), self)) \<and>
         (\<forall>credentials i s.
            files env (CREDENTIALS_PATH env) = Content (Some credentials) \<and>
            py_getitem credentials ''client_id'' = Inr i \<and>
            py_getitem credentials ''client_secret'' = Inr s \<longrightarrow>
            set_credentials env cid csecret self =
              (Inr (), self\<lparr>client_id := i, client_secret := s\<rparr>))"
  using assms by (auto simp: set_credentials_def)

text \<open>An explicit identifier with an empty secret, with and without a credentials file.\<close>

theorem partial_credentials_fall_back_witness:
  "set_credentials (credentials_file (PDict [(''client_id'', PStr ''a''), (''client_secret'', PStr ''b'')]))
     (PStr ''explicit'') (PStr []) new_client =
   (Inr (), new_client\<lparr>client_id := PStr ''a'', client_secret := PStr ''b''\<rparr>) \<and>
   set_credentials no_files (PStr ''explicit'') PNone new_client = (Inl (SystemExit (- 2)), new_client)"
proof -
  let ?c = "PDict [(''client_id'', PStr ''a''), (''client_secret'', PStr ''b'')]"
  have there: "files (credentials_file ?c) (CREDENTIALS_PATH (credentials_file ?c)) = Content (Some ?c)"
    by (simp add: credentials_file_def CREDENTIALS_PATH_def)
  have absent: "files no_files (CREDENTIALS_PATH no_files) = Missing"
    by (simp add: no_files_def)
  have keys: "py_getitem ?c ''client_id'' = Inr (PStr ''a'')"
    "py_getitem ?c ''client_secret'' = Inr (PStr ''b'')"
    by simp_all
  have "set_credentials (credentials_file ?c) (PStr ''explicit'') (PStr []) new_client =
          (Inr (), new_client\<lparr>client_id := PStr ''a'', client_secret := PStr ''b''\<rparr>)"
    using partial_credentials_fall_back
            [of "PStr ''explicit''" "PStr []" "credentials_file ?c" new_client] there keys
    by blast
  moreover have "set_credentials no_files (PStr ''explicit'') PNone new_client =
          (Inl (SystemExit (- 2)), new_client)"
    using partial_credentials_fall_back [of "PStr ''explicit''" PNone no_files new_client] absent
    by blast
  ultimately show ?thesis by blast
qed

section \<open>The liveness check\<close>

text \<open>
  Claim C5, amended. \<open>is_authenticated\<close> sends one GET to the liveness endpoint with the
  token in the query string. When the request is answered, the result is a boolean and
  nothing is raised: \<open>True\<close> exactly when the status code is outside 400..599 (which is
  \<open>response.ok\<close>, so every 2xx gives \<open>True\<close> and every 4xx and 5xx gives \<open>False\<close>).
  When the request fails in transport, the exception of \<open>requests\<close> is not caught and
  reaches the caller.
\<close>

theorem is_authenticated_outcome:
  assumes "respond (srv_state n) (liveness_request self) = (out, w')"
  shows "is_authenticated respond self n =
           ((case out of
               Resp r \<Rightarrow> Inr (status_code r < 400 \<or> 600 \<le> status_code r)
             | NetFail \<Rightarrow> Inl ConnectionError),
            \<lparr>srv_state = w', sent = sent n @ [liveness_request self]\<rparr>)"
  using assms by (auto simp: is_authenticated_send send_eq ok_def split: outcome.splits)

text \<open>A live and a dead token against servers that answer 200 and 401.\<close>

theorem is_authenticated_outcome_witness:
  "is_authenticated (always (Resp (status_response 200 ''live''))) example_client idle =
     (Inr True, \<lparr>srv_state = (), sent = [liveness_request example_client]\<rparr>) \<and>
   is_authenticated (always (Resp (status_response 401 ''dead''))) example_client idle =
     (Inr False, \<lparr>srv_state = (), sent = [liveness_request example_client]\<rparr>)"
  using is_authenticated_outcome
      [of "always (Resp (status_response 200 ''live''))" idle example_client
          "Resp (status_response 200 ''live'')" "()"]
    is_authenticated_outcome
      [of "always (Resp (status_response 401 ''dead''))" idle example_client
          "Resp (status_response 401 ''dead'')" "()"]
  by (simp add: always_def idle_def status_response_def)

text \<open>
  The claim as first stated fails: a transport failure raises instead of giving \<open>False\<close>,
  and a 304 answer, which is not 2xx, gives \<open>True\<close>.
\<close>

theorem is_authenticated_raises_counterexample:
  "is_authenticated (always NetFail) example_client idle =
     (Inl ConnectionError, \<lparr>srv_state = (), sent = [liveness_request example_client]\<rparr>) \<and>
   is_authenticated (always (Resp (status_response 304 []))) example_client idle =
     (Inr True, \<lparr>srv_state = (), sent = [liveness_request example_client]\<rparr>)"
  by (simp add: is_authenticated_send send_def always_def idle_def status_response_def ok_def)

section \<open>The token request\<close>

text \<open>
  Claim C6, amended. For every pair of credential strings made of ASCII characters,
  \<open>obtain_access_token\<close> posts exactly the token request of the specification (grant type,
  the two scopes joined by a space, Basic header over the Base64 of \<open>client_id:client_secret\<close>).
  When the endpoint answers, it raises the assertion failure if and only if the response
  is not \<open>ok\<close>, and then the message ends with the response body and the token is
  untouched; when the response is \<open>ok\<close> and its JSON has \<open>access_token\<close>, nothing is
  raised and exactly that value becomes \<open>self.access_token\<close>.
\<close>

theorem obtain_access_token_ascii:
  assumes creds: "client_id self = PStr i" "client_secret self = PStr s"
      "list_all (\<lambda>ch. (of_char ch :: nat) < 128) (i @ '':'' @ s)"
    and answer: "respond (srv_state n) (spec_token_request i s) = (Resp r, w')"
  shows "\<exists>res self'.
           obtain_access_token respond self n =
             (res, self', \<lparr>srv_state = w', sent = sent n @ [spec_token_request i s]\<rparr>) \<and>
           ((\<exists>msg. res = Inl (AssertionError msg)) \<longleftrightarrow> \<not> ok r) \<and>
           (\<not> ok r \<longrightarrow>
              res = Inl (AssertionError (''Failed to get access_token.'' @ response_text r)) \<and>
              self' = self) \<and>
           (\<forall>j token. ok r \<and> json r = Some j \<and> py_getitem j ''access_token'' = Inr token \<longrightarrow>
              res = Inr () \<and> self' = self\<lparr>access_token := token\<rparr>)"
  using obtain_access_token_sends[OF creds, of respond n "Resp r" w', unfolded token_request_spec]
    answer
  by (auto split: option.splits sum.splits dest: py_getitem_error)

text \<open>The credentials \<open>id\<close> and \<open>secret\<close>: the header is \<open>Basic aWQ6c2VjcmV0\<close>.\<close>

theorem obtain_access_token_ascii_witness:
  "obtain_access_token (always (Resp (token_response (PStr ''fresh'')))) example_client idle =
     (Inr (), example_client\<lparr>access_token := PStr ''fresh''\<rparr>,
      \<lparr>srv_state = (),
       sent = [\<lparr>meth = POST,
                url = ''https://oauth2-case.imsglobal.org/oauth2server/clienttoken'',
                headers = [(''Authorization'', ''Basic aWQ6c2VjcmV0'')],
                form = [(''grant_type'', ''client_credentials''),
                        (''scope'',
                         ''http://purl.imsglobal.org/casenetwork/case/v1p0/scope/core.readonly http://purl.imsglobal.org/casenetwork/case/v1p0/scope/all.readonly'')],
                verify = False\<rparr>]\<rparr>)"
proof -
  let ?r = "token_response (PStr ''fresh'')"
  have req: "spec_token_request ''id'' ''secret'' =
       \<lparr>meth = POST,
        url = ''https://oauth2-case.imsglobal.org/oauth2server/clienttoken'',
        headers = [(''Authorization'', ''Basic aWQ6c2VjcmV0'')],
        form = [(''grant_type'', ''client_credentials''),
                (''scope'',
                 ''http://purl.imsglobal.org/casenetwork/case/v1p0/scope/core.readonly http://purl.imsglobal.org/casenetwork/case/v1p0/scope/all.readonly'')],
        verify = False\<rparr>"
    by (simp add: spec_token_request_def b64_char_def b64_alphabet_def)
  have h: "client_id example_client = PStr ''id''" "client_secret example_client = PStr ''secret''"
    "list_all (\<lambda>ch. (of_char ch :: nat) < 128) (''id'' @ '':'' @ ''secret'')"
    "always (Resp ?r) (srv_state idle) (spec_token_request ''id'' ''secret'') = (Resp ?r, ())"
    by (simp_all add: example_client_def always_def)
  have r: "ok ?r" "json ?r = Some (PDict [(''access_token'', PStr ''fresh'')])"
    "py_getitem (PDict [(''access_token'', PStr ''fresh'')]) ''access_token'' = Inr (PStr ''fresh'')"
    by (simp_all add: token_response_def ok_def)
  from obtain_access_token_ascii
         [of example_client "''id''" "''secret''" "always (Resp ?r)" idle ?r "()"] h r
  show ?thesis
    by (auto simp: req idle_def)
qed

text \<open>
  The claim as first stated fails for a credential with a character outside ASCII:
  \<open>encode('ascii')\<close> raises before anything is sent, although the endpoint would answer
  with a token.
\<close>

theorem obtain_access_token_non_ascii_counterexample:
  "obtain_access_token (always (Resp (token_response (PStr ''fresh''))))
     \<lparr>client_id = PStr [CHR 0xC3, CHR 0xA9], client_secret = PStr ''secret'',
      access_token = PNone\<rparr> idle =
   (Inl UnicodeEncodeError,
    \<lparr>client_id = PStr [CHR 0xC3, CHR 0xA9], client_secret = PStr ''secret'',
      access_token = PNone\<rparr>, idle)"
  by (simp add: obtain_access_token_def encode_ascii_def)

section \<open>The authenticated GET\<close>

text \<open>
  Claim C7. The first request of every \<open>get\<close> is the GET of the specification: the URL is
  \<open>BASE_URL + path\<close> when the parameters are absent or empty and has \<open>?\<close> and the
  \<open>key=value\<close> pairs joined by \<open>&\<close> otherwise, and the header is
  \<open>Authorization: Bearer\<close> with the current token. When that request is answered by an
  \<open>ok\<close> response with a JSON body, \<open>get\<close> returns the body after this one request.
\<close>

theorem get_request_and_result:
  "(\<exists>rest. sent (snd (snd (get respond path params self n))) =
            sent n @ spec_get_request path params self # rest) \<and>
   (\<forall>r w' j. respond (srv_state n) (spec_get_request path params self) = (Resp r, w') \<and>
             ok r \<and> json r = Some j \<longrightarrow>
      get respond path params self n =
        (Inr j, self, \<lparr>srv_state = w', sent = sent n @ [spec_get_request path params self]\<rparr>))"
proof (intro conjI allI impI)
  obtain res self' n' where g: "get respond path params self n = (res, self', n')"
    by (cases "get respond path params self n")
  from get_sent[OF g] show "\<exists>rest. sent (snd (snd (get respond path params self n))) =
            sent n @ spec_get_request path params self # rest"
    by (auto simp: g resource_request_spec)
next
  fix r w' j
  assume a: "respond (srv_state n) (spec_get_request path params self) = (Resp r, w') \<and>
             ok r \<and> json r = Some j"
  then show "get respond path params self n =
        (Inr j, self, \<lparr>srv_state = w', sent = sent n @ [spec_get_request path params self]\<rparr>)"
    using get_first_final[of respond n path params self r w'] ok_not_unauthorized[of r]
    by (simp add: resource_request_spec)
qed

text \<open>A path with two parameters, an integer and a string.\<close>

theorem get_request_and_result_witness:
  "get (always (Resp (documents_response [PInt 7]))) ''/CFItems''
     (Some [(''limit'', PInt 5), (''sort'', PStr ''title'')]) example_client idle =
   (Inr (PDict [(''CFDocuments'', PList [PInt 7])]), example_client,
    \<lparr>srv_state = (),
     sent = [\<lparr>meth = GET,
              url = ''https://caseregistry.imsglobal.org/ims/case/v1p0/CFItems?limit=5&sort=title'',
              headers = [(''Authorization'', ''Bearer stale'')], form = [], verify = False\<rparr>]\<rparr>)"
proof -
  let ?srv = "always (Resp (documents_response [PInt 7]))"
  let ?ps = "Some [(''limit'', PInt 5), (''sort'', PStr ''title'')]"
  have req: "spec_get_request ''/CFItems'' ?ps example_client =
       \<lparr>meth = GET,
        url = ''https://caseregistry.imsglobal.org/ims/case/v1p0/CFItems?limit=5&sort=title'',
        headers = [(''Authorization'', ''Bearer stale'')], form = [], verify = False\<rparr>"
    by (simp add: spec_get_request_def BASE_URL_def example_client_def str_int_def dec_nat.simps)
  have "?srv (srv_state idle) (spec_get_request ''/CFItems'' ?ps example_client) =
          (Resp (documents_response [PInt 7]), ()) \<and>
        ok (documents_response [PInt 7]) \<and>
        json (documents_response [PInt 7]) = Some (PDict [(''CFDocuments'', PList [PInt 7])])"
    by (simp add: always_def documents_response_def ok_def)
  with get_request_and_result [of ?srv "''/CFItems''" ?ps example_client idle]
  show ?thesis by (simp add: req idle_def)
qed

text \<open>
  Claim C3. When the first response is 401 or 403, the liveness check is sent; when it
  reports the token dead and the token request succeeds, the GET is sent once more with
  the new token in its bearer header; when that response is \<open>ok\<close> with a JSON body, \<open>get\<close>
  returns the body. Four requests were sent, two of them to the resource.
\<close>

theorem get_refresh_retry_succeeds:
  assumes first: "respond (srv_state n) (resource_request path params self) = (Resp r1, w1)"
      "status_code r1 = 401 \<or> status_code r1 = 403"
    and dead: "respond w1 (liveness_request self) = (Resp r2, w2)" "\<not> ok r2"
    and creds: "client_id self = PStr i" "client_secret self = PStr s"
      "list_all (\<lambda>ch. (of_char ch :: nat) < 128) (i @ '':'' @ s)"
    and fresh: "respond w2 (token_request (map of_char (i @ '':'' @ s))) = (Resp r3, w3)"
      "ok r3" "json r3 = Some j3" "py_getitem j3 ''access_token'' = Inr token"
    and again: "respond w3 (resource_request path params (self\<lparr>access_token := token\<rparr>)) = (Resp r4, w4)"
      "ok r4" "json r4 = Some j"
  shows "get respond path params self n =
           (Inr j, self\<lparr>access_token := token\<rparr>,
            \<lparr>srv_state = w4,
             sent = sent n @ [resource_request path params self, liveness_request self,
                              token_request (map of_char (i @ '':'' @ s)),
                              resource_request path params (self\<lparr>access_token := token\<rparr>)]\<rparr>) \<and>
         headers (resource_request path params (self\<lparr>access_token := token\<rparr>)) =
           [(''Authorization'', ''Bearer '' @ py_str token)] \<and>
         length (filter is_resource_get
                   [resource_request path params self, liveness_request self,
                    token_request (map of_char (i @ '':'' @ s)),
                    resource_request path params (self\<lparr>access_token := token\<rparr>)]) = 2"
proof (intro conjI)
  show "get respond path params self n =
           (Inr j, self\<lparr>access_token := token\<rparr>,
            \<lparr>srv_state = w4,
             sent = sent n @ [resource_request path params self, liveness_request self,
                              token_request (map of_char (i @ '':'' @ s)),
                              resource_request path params (self\<lparr>access_token := token\<rparr>)]\<rparr>)"
    using get_retry[OF first dead creds fresh again(1)] again(2,3) by simp
  show "headers (resource_request path params (self\<lparr>access_token := token\<rparr>)) =
           [(''Authorization'', ''Bearer '' @ py_str token)]"
    by (simp add: resource_request_def bearer_headers_def)
qed (rule retry_trace_count)

text \<open>A scripted server: 401, dead, a fresh token, a page.\<close>

theorem get_refresh_retry_succeeds_witness:
  "get scripted CFDocuments_endpoint (Some (page_params 0)) example_client
     \<lparr>srv_state = [Resp (status_response 401 ''unauthorized''), Resp (status_response 401 ''dead''),
                   Resp (token_response (PStr ''fresh'')), Resp (documents_response [PInt 1])],
      sent = []\<rparr> =
   (Inr (PDict [(''CFDocuments'', PList [PInt 1])]),
    example_client\<lparr>access_token := PStr ''fresh''\<rparr>,
    \<lparr>srv_state = [],
     sent = [page_request example_client 0, liveness_request example_client,
             token_request (map of_char ''id:secret''),
             page_request (example_client\<lparr>access_token := PStr ''fresh''\<rparr>) 0]\<rparr>)"
  using get_refresh_retry_succeeds
    [of scripted
        "\<lparr>srv_state = [Resp (status_response 401 ''unauthorized''), Resp (status_response 401 ''dead''),
                   Resp (token_response (PStr ''fresh'')), Resp (documents_response [PInt 1])],
          sent = []\<rparr>"
        CFDocuments_endpoint "Some (page_params 0)" example_client
        "status_response 401 ''unauthorized''"
        "[Resp (status_response 401 ''dead''),
          Resp (token_response (PStr ''fresh'')), Resp (documents_response [PInt 1])]"
        "status_response 401 ''dead''"
        "[Resp (token_response (PStr ''fresh'')), Resp (documents_response [PInt 1])]"
        "''id''" "''secret''"
        "token_response (PStr ''fresh'')"
        "[Resp (documents_response [PInt 1])]"
        "PDict [(''access_token'', PStr ''fresh'')]" "PStr ''fresh''"
        "documents_response [PInt 1]" "[]"
        "PDict [(''CFDocuments'', PList [PInt 1])]"]
  by (simp add: status_response_def token_response_def documents_response_def ok_def
        example_client_def page_request_def)

text \<open>
  Claim C4. In the same situation, when the retried response is again not \<open>ok\<close>, \<open>get\<close>
  raises the HTTP error with the status code and body of that response. The requests sent
  are the same four: there is no third resource request.
\<close>

theorem get_second_refusal_raises:
  assumes first: "respond (srv_state n) (resource_request path params self) = (Resp r1, w1)"
      "status_code r1 = 401 \<or> status_code r1 = 403"
    and dead: "respond w1 (liveness_request self) = (Resp r2, w2)" "\<not> ok r2"
    and creds: "client_id self = PStr i" "client_secret self = PStr s"
      "list_all (\<lambda>ch. (of_char ch :: nat) < 128) (i @ '':'' @ s)"
    and fresh: "respond w2 (token_request (map of_char (i @ '':'' @ s))) = (Resp r3, w3)"
      "ok r3" "json r3 = Some j3" "py_getitem j3 ''access_token'' = Inr token"
    and again: "respond w3 (resource_request path params (self\<lparr>access_token := token\<rparr>)) = (Resp r4, w4)"
      "\<not> ok r4"
  shows "get respond path params self n =
           (Inl (HTTPError (status_code r4) (response_text r4)), self\<lparr>access_token := token\<rparr>,
            \<lparr>srv_state = w4,
             sent = sent n @ [resource_request path params self, liveness_request self,
                              token_request (map of_char (i @ '':'' @ s)),
                              resource_request path params (self\<lparr>access_token := token\<rparr>)]\<rparr>) \<and>
         length (filter is_resource_get
                   [resource_request path params self, liveness_request self,
                    token_request (map of_char (i @ '':'' @ s)),
                    resource_request path params (self\<lparr>access_token := token\<rparr>)]) = 2"
proof (intro conjI)
  show "get respond path params self n =
           (Inl (HTTPError (status_code r4) (response_text r4)), self\<lparr>access_token := token\<rparr>,
            \<lparr>srv_state = w4,
             sent = sent n @ [resource_request path params self, liveness_request self,
                              token_request (map of_char (i @ '':'' @ s)),
                              resource_request path params (self\<lparr>access_token := token\<rparr>)]\<rparr>)"
    using get_retry[OF first dead creds fresh again(1)] again(2) by simp
qed (rule retry_trace_count)

text \<open>A scripted server that refuses again; its fifth answer is never asked for.\<close>

theorem get_second_refusal_raises_witness:
  "get scripted CFDocuments_endpoint (Some (page_params 0)) example_client
     \<lparr>srv_state = [Resp (status_response 401 ''unauthorized''), Resp (status_response 401 ''dead''),
                   Resp (token_response (PStr ''fresh'')), Resp (status_response 401 ''still unauthorized''),
                   Resp (documents_response [PInt 1])],
      sent = []\<rparr> =
   (Inl (HTTPError 401 ''still unauthorized''),
    example_client\<lparr>access_token := PStr ''fresh''\<rparr>,
    \<lparr>srv_state = [Resp (documents_response [PInt 1])],
     sent = [page_request example_client 0, liveness_request example_client,
             token_request (map of_char ''id:secret''),
             page_request (example_client\<lparr>access_token := PStr ''fresh''\<rparr>) 0]\<rparr>)"
  using get_second_refusal_raises
    [of scripted
        "\<lparr>srv_state = [Resp (status_response 401 ''unauthorized''), Resp (status_response 401 ''dead''),
                   Resp (token_response (PStr ''fresh'')), Resp (status_response 401 ''still unauthorized''),
                   Resp (documents_response [PInt 1])],
          sent = []\<rparr>"
        CFDocuments_endpoint "Some (page_params 0)" example_client
        "status_response 401 ''unauthorized''"
        "[Resp (status_response 401 ''dead''),
          Resp (token_response (PStr ''fresh'')), Resp (status_response 401 ''still unauthorized''),
          Resp (documents_response [PInt 1])]"
        "status_response 401 ''dead''"
        "[Resp (token_response (PStr ''fresh'')), Resp (status_response 401 ''still unauthorized''),
          Resp (documents_response [PInt 1])]"
        "''id''" "''secret''"
        "token_response (PStr ''fresh'')"
        "[Resp (status_response 401 ''still unauthorized''), Resp (documents_response [PInt 1])]"
        "PDict [(''access_token'', PStr ''fresh'')]" "PStr ''fresh''"
        "status_response 401 ''still unauthorized''" "[Resp (documents_response [PInt 1])]"]
  by (simp add: status_response_def token_response_def documents_response_def ok_def
        example_client_def page_request_def)

section \<open>The paginator\<close>

text \<open>
  \<open>get_documents_loop\<close> is defined by well-founded recursion: every iteration either
  raises, or sets \<open>done\<close>, or adds one to \<open>counter\<close>, which stays below \<open>max_requests\<close>.
  So \<open>get_documents\<close> returns for every server, given that each request is answered or
  fails.
\<close>

lemma scripted_loop_four:
  assumes "p0 \<noteq> []" "p1 \<noteq> []" "p2 \<noteq> []"
    and "serves_page r0 p0" "serves_page r1 p1" "serves_page r2 p2" "serves_page r3 []"
  shows "get_documents scripted self \<lparr>srv_state = [Resp r0, Resp r1, Resp r2, Resp r3], sent = xs\<rparr> =
           (Inr (p0 @ p1 @ p2), self,
            \<lparr>srv_state = [],
             sent = xs @ [page_request self 0, page_request self 1, page_request self 2,
                          page_request self 3]\<rparr>)"
proof -
  have m: "0 < max_requests" "Suc 0 < max_requests" "Suc (Suc 0) < max_requests"
    "Suc (Suc (Suc 0)) < max_requests"
    by (simp_all add: max_requests_def)
  show ?thesis
    unfolding get_documents_def
    apply (subst loop_step_page[where r = r0 and docs = p0 and w' = "[Resp r1, Resp r2, Resp r3]"])
       apply (simp_all add: assms m)
    apply (subst loop_step_page[where r = r1 and docs = p1 and w' = "[Resp r2, Resp r3]"])
       apply (simp_all add: assms m)
    apply (subst loop_step_page[where r = r2 and docs = p2 and w' = "[Resp r3]"])
       apply (simp_all add: assms m)
    apply (subst loop_step_page[where r = r3 and docs = "[]" and w' = "[]"])
       apply (simp_all add: assms m numeral_2_eq_2 numeral_3_eq_3)
    done
qed

lemma serves_page_documents_response: "serves_page (documents_response docs) docs"
  by (simp add: serves_page_def documents_response_def ok_def)

lemma dataset_loop:
  assumes serve: "\<And>w hs k. k < max_requests \<Longrightarrow>
        \<exists>r w'. respond w \<lparr>meth = GET, url = get_url CFDocuments_endpoint (Some (page_params k)),
                           headers = hs, form = [], verify = False\<rparr> = (Resp r, w') \<and>
               serves_page r (take chunk_size (drop (chunk_size * k) ds))"
  shows "max_requests - counter = d \<Longrightarrow> counter \<le> max_requests \<Longrightarrow>
         \<exists>n'. get_documents_loop respond (take (chunk_size * counter) ds) False counter self n =
                (Inr (take (chunk_size * max_requests) ds), self, n')"
proof (induction d arbitrary: counter n)
  case 0
  then have "counter = max_requests" by simp
  then show ?case by (simp add: loop_stop)
next
  case (Suc d)
  then have lt: "counter < max_requests" by simp
  let ?page = "take chunk_size (drop (chunk_size * counter) ds)"
  from serve[OF lt, of "srv_state n" "bearer_headers self"] obtain r w' where
    r: "respond (srv_state n) (page_request self counter) = (Resp r, w')" "serves_page r ?page"
    by (auto simp: page_request_def resource_request_def)
  let ?n1 = "\<lparr>srv_state = w', sent = sent n @ [page_request self counter]\<rparr>"
  show ?case
  proof (cases "?page = []")
    case True
    then have short: "length ds \<le> chunk_size * counter" by (simp add: chunk_size_def)
    have "chunk_size * counter \<le> chunk_size * max_requests" using lt by simp
    with short have "length ds \<le> chunk_size * max_requests" by (rule order_trans)
    then have "take (chunk_size * max_requests) ds = ds" by (rule take_all)
    moreover have "take (chunk_size * counter) ds = ds" using short by (rule take_all)
    ultimately have "take (chunk_size * counter) ds = take (chunk_size * max_requests) ds"
      by simp
    with loop_step_page[where respond = respond and n = n and self = self and counter = counter
        and r = r and w' = w' and docs = ?page and documents = "take (chunk_size * counter) ds"]
      r lt True
    show ?thesis by simp
  next
    case False
    have next_offset: "chunk_size * Suc counter = chunk_size * counter + chunk_size" by simp
    have grow: "take (chunk_size * counter) ds @ ?page = take (chunk_size * Suc counter) ds"
      by (simp only: next_offset take_add)
    have d: "max_requests - Suc counter = d" using Suc.prems by arith
    have le: "Suc counter \<le> max_requests" using lt by simp
    from Suc.IH[OF d le, of ?n1]
    obtain n' where "get_documents_loop respond (take (chunk_size * Suc counter) ds) False
                       (Suc counter) self ?n1 =
                     (Inr (take (chunk_size * max_requests) ds), self, n')"
      by blast
    with loop_step_page[where respond = respond and n = n and self = self and counter = counter
        and r = r and w' = w' and docs = ?page and documents = "take (chunk_size * counter) ds"]
      r lt False grow
    show ?thesis by simp
  qed
qed

lemma page_url_find:
  assumes "k < max_requests"
  shows "find (\<lambda>k'. get_url CFDocuments_endpoint (Some (page_params k)) =
                      get_url CFDocuments_endpoint (Some (page_params k')))
              [0..<max_requests] = Some k"
proof -
  have upt: "[0..<max_requests] = [0, 1, 2, 3, 4, 5, 6, 7, 8, 9]"
    by (simp add: max_requests_def upt_rec)
  from assms have "k = 0 \<or> k = 1 \<or> k = 2 \<or> k = 3 \<or> k = 4 \<or> k = 5 \<or> k = 6 \<or> k = 7 \<or> k = 8 \<or> k = 9"
    unfolding max_requests_def by arith
  then show ?thesis
    unfolding upt
    by (elim disjE)
       (simp_all add: get_url_def page_params_def querystring_def chunk_size_def
          str_int_def dec_nat.simps)
qed

lemma dataset_server_serves:
  assumes "k < max_requests"
  shows "\<exists>r w'. dataset_server ds w
            \<lparr>meth = GET, url = get_url CFDocuments_endpoint (Some (page_params k)),
             headers = hs, form = [], verify = False\<rparr> = (Resp r, w') \<and>
          serves_page r (take chunk_size (drop (chunk_size * k) ds))"
  by (simp add: dataset_server_def page_url_find[OF assms] serves_page_documents_response)




text \<open>
  Claim C1. Against a server that answers the page requests, in order, with pages of 50,
  50, 23 and 0 documents, \<open>get_documents\<close> returns the 123 documents of the three pages,
  in the order served, and sends exactly the four page requests for the offsets 0, 50,
  100 and 150.
\<close>

theorem get_documents_four_pages:
  assumes "length p0 = 50" "length p1 = 50" "length p2 = 23"
    and "serves_page r0 p0" "serves_page r1 p1" "serves_page r2 p2" "serves_page r3 []"
    and "srv_state n = [Resp r0, Resp r1, Resp r2, Resp r3]"
  shows "\<exists>n'. get_documents scripted self n = (Inr (p0 @ p1 @ p2), self, n') \<and>
              length (p0 @ p1 @ p2) = 123 \<and>
              sent n' = sent n @ [page_request self 0, page_request self 1,
                                  page_request self 2, page_request self 3] \<and>
              length (sent n') = length (sent n) + 4"
proof -
  have ne: "p0 \<noteq> []" "p1 \<noteq> []" "p2 \<noteq> []" using assms(1-3) by auto
  have n: "n = \<lparr>srv_state = [Resp r0, Resp r1, Resp r2, Resp r3], sent = sent n\<rparr>"
    using assms(8) by (cases n) simp
  show ?thesis
    apply (subst n)
    apply (subst scripted_loop_four[OF ne assms(4-7)])
    using assms(1-3) apply simp
    done
qed

text \<open>Pages filled with the numbers 0, 1 and 2.\<close>

theorem get_documents_four_pages_witness:
  "\<exists>n'. get_documents scripted example_client
           \<lparr>srv_state = [Resp (documents_response (replicate 50 (PInt 0))),
                         Resp (documents_response (replicate 50 (PInt 1))),
                         Resp (documents_response (replicate 23 (PInt 2))),
                         Resp (documents_response [])],
            sent = []\<rparr> =
          (Inr (replicate 50 (PInt 0) @ replicate 50 (PInt 1) @ replicate 23 (PInt 2)),
           example_client, n') \<and>
        sent n' = [page_request example_client 0, page_request example_client 1,
                   page_request example_client 2, page_request example_client 3]"
  using get_documents_four_pages
    [of "replicate 50 (PInt 0)" "replicate 50 (PInt 1)" "replicate 23 (PInt 2)"
        "documents_response (replicate 50 (PInt 0))"
        "documents_response (replicate 50 (PInt 1))"
        "documents_response (replicate 23 (PInt 2))"
        "documents_response []"
        "\<lparr>srv_state = [Resp (documents_response (replicate 50 (PInt 0))),
                         Resp (documents_response (replicate 50 (PInt 1))),
                         Resp (documents_response (replicate 23 (PInt 2))),
                         Resp (documents_response [])],
            sent = []\<rparr>" example_client]
  by (auto simp: serves_page_documents_response)




text \<open>
  Claim C9. Against a server that holds a fixed list of documents and answers the request
  for page \<open>k\<close> with the \<open>k\<close>-th slice of 50, whatever its own state and whatever the
  token, \<open>get_documents\<close> returns the first 500 documents of the list, and returns the same
  when called again on the state the first call left.
\<close>

theorem get_documents_twice_same:
  assumes "\<And>w hs k. k < max_requests \<Longrightarrow>
        \<exists>r w'. respond w \<lparr>meth = GET, url = get_url CFDocuments_endpoint (Some (page_params k)),
                           headers = hs, form = [], verify = False\<rparr> = (Resp r, w') \<and>
               serves_page r (take chunk_size (drop (chunk_size * k) ds))"
  shows "\<exists>n1 n2. get_documents respond self n = (Inr (take 500 ds), self, n1) \<and>
                 get_documents respond self n1 = (Inr (take 500 ds), self, n2)"
proof -
  have len: "chunk_size * max_requests = 500" by (simp add: chunk_size_def max_requests_def)
  have once: "\<exists>n'. get_documents respond self n = (Inr (take 500 ds), self, n')" for n
    using dataset_loop[OF assms, where counter = 0 and d = max_requests and self = self and n = n]
    by (simp add: get_documents_def len)
  from once[of n] obtain n1 where 1: "get_documents respond self n = (Inr (take 500 ds), self, n1)"
    by blast
  from once[of n1] obtain n2 where "get_documents respond self n1 = (Inr (take 500 ds), self, n2)"
    by blast
  with 1 show ?thesis by blast
qed

text \<open>The dataset server over three documents, called twice.\<close>

theorem get_documents_twice_same_witness:
  "\<exists>n1 n2. get_documents (dataset_server [PStr ''a'', PStr ''b'', PStr ''c'']) example_client idle =
             (Inr (take 500 [PStr ''a'', PStr ''b'', PStr ''c'']), example_client, n1) \<and>
           get_documents (dataset_server [PStr ''a'', PStr ''b'', PStr ''c'']) example_client n1 =
             (Inr (take 500 [PStr ''a'', PStr ''b'', PStr ''c'']), example_client, n2)"
  using get_documents_twice_same
    [of "dataset_server [PStr ''a'', PStr ''b'', PStr ''c'']" "[PStr ''a'', PStr ''b'', PStr ''c'']"
        example_client idle]
    dataset_server_serves
  by blast

end
